theory Spec2Isabelle
  imports Main "HOL-Library.Word"
begin

section \<open>JavaScript strings\<close>

text \<open>
  A JavaScript string is a sequence of UTF-16 code units; \<open>s.length\<close> counts code
  units and \<open>===\<close> on strings compares them unit by unit. The string literals of the
  source are all ASCII and are written through \<open>js\<close>.
\<close>

type_synonym jschar = "16 word"
type_synonym jsstring = "jschar list"

definition js :: "string \<Rightarrow> jsstring" where
  "js s = map of_char s"

text \<open>Truthiness of an object reference that may be \<open>undefined\<close>: every object is
  truthy, \<open>undefined\<close> is falsy.\<close>

definition truthy_obj :: "'a option \<Rightarrow> bool" where
  "truthy_obj x = (case x of None \<Rightarrow> False | Some _ \<Rightarrow> True)"

section \<open>Route-gating middleware\<close>

text \<open>
  The part of a \<open>NextRequest\<close> the middleware reads: \<open>request.nextUrl.pathname\<close>,
  \<open>request.url\<close> and the cookie jar \<open>request.cookies\<close> (cookie name to cookie value).
  The record is extensible: everything else a request carries lives in its \<open>more\<close> part.
\<close>

record NextRequest =
  nextUrl_pathname :: jsstring
  url :: jsstring
  cookies :: "jsstring \<rightharpoonup> jsstring"

record RequestCookie =
  cookie_name :: jsstring
  cookie_value :: jsstring

text \<open>\<open>request.cookies.get(name)\<close>: the cookie object, or \<open>undefined\<close>.\<close>

definition cookies_get :: "'a NextRequest_scheme \<Rightarrow> jsstring \<Rightarrow> RequestCookie option" where
  "cookies_get request n =
     (case cookies request n of
        None \<Rightarrow> None
      | Some v \<Rightarrow> Some \<lparr>cookie_name = n, cookie_value = v\<rparr>)"

text \<open>\<open>new URL(input, base)\<close>, kept as the pair of its arguments.\<close>

datatype URL = URL (url_input: jsstring) (url_base: jsstring)

datatype NextResponse = NextResponse_redirect URL | NextResponse_next

definition middleware :: "'a NextRequest_scheme \<Rightarrow> NextResponse" where
  "middleware request =
     (let isLoginPage = (nextUrl_pathname request = js ''/login'');
          token = cookies_get request (js ''auth-token'')
      in if \<not> truthy_obj token \<and> \<not> isLoginPage
           then NextResponse_redirect (URL (js ''/login'') (url request))
         else if truthy_obj token \<and> isLoginPage
           then NextResponse_redirect (URL (js ''/dashboard'') (url request))
         else NextResponse_next)"

text \<open>The decision a response stands for: the path it redirects to, or pass-through.\<close>

fun decision :: "NextResponse \<Rightarrow> jsstring option" where
  "decision (NextResponse_redirect u) = Some (url_input u)"
| "decision NextResponse_next = None"

text \<open>
  The reference definition, written from the specification's words: one conditional,
  redirect exactly when (cookie present) equals (pathname is \<open>/login\<close>); the destination is
  \<open>/login\<close> when the cookie is absent and \<open>/dashboard\<close> when it is present.
\<close>

definition middleware_single_conditional :: "'a NextRequest_scheme \<Rightarrow> NextResponse" where
  "middleware_single_conditional request =
     (let present = (cookies request (js ''auth-token'') \<noteq> None) in
      if present = (nextUrl_pathname request = js ''/login'')
        then NextResponse_redirect
               (URL (if present then js ''/dashboard'' else js ''/login'') (url request))
      else NextResponse_next)"

section \<open>The identity provider's SDK, toasts and the state shared by the forms\<close>

text \<open>
  \<open>useAuthState(auth)\<close> yields the signed-in user or \<open>null\<close>/\<open>undefined\<close>; of a user the
  forms read \<open>email\<close> and \<open>displayName\<close>, each a string or \<open>null\<close>.
\<close>

record User =
  user_email :: "jsstring option"
  user_displayName :: "jsstring option"

text \<open>\<open>EmailAuthProvider.credential(email, password)\<close> builds a credential locally.\<close>

datatype AuthCredential = EmailAuthProvider_credential jsstring jsstring

text \<open>The asynchronous operations of the SDK the forms await, with their arguments
  (the constant \<open>auth\<close> handle is left out).\<close>

datatype sdk_call =
    signInWithEmailAndPassword jsstring jsstring
  | reauthenticateWithCredential User AuthCredential
  | updatePassword User jsstring
  | updateProfile User jsstring

record AuthError =
  code :: jsstring

text \<open>An awaited SDK promise either resolves or rejects with an error. The SDK is a
  parameter of every handler: any function from calls to outcomes.\<close>

datatype sdk_result = Resolved | Rejected AuthError

type_synonym sdk = "sdk_call \<Rightarrow> sdk_result"

text \<open>The argument of \<open>toast({...})\<close>; \<open>variant\<close> is absent on the success toasts.\<close>

record Toast =
  variant :: "jsstring option"
  title :: jsstring
  description :: jsstring

text \<open>
  What every form has: the \<open>loading\<close> state variable, and the observable effects of a
  handler kept as logs in the order they happen: whether \<open>e.preventDefault()\<close> was
  called, the toasts shown, and the SDK operations invoked.
\<close>

record ui =
  defaultPrevented :: bool
  loading :: bool
  toasts :: "Toast list"
  sdk_calls :: "sdk_call list"

section \<open>Login form\<close>

text \<open>
  \<open>getErrorMessage\<close>: a \<open>switch\<close> on \<open>error.code\<close> with strict string equality. The
  result is the message together with the lines the call writes with \<open>console.error\<close>
  (one line, the arguments of the call, in the default branch; none otherwise).
\<close>

definition getErrorMessage :: "AuthError \<Rightarrow> jsstring \<times> jsstring list list" where
  "getErrorMessage error =
     (if code error = js ''auth/invalid-email''
        then (js ''Please enter a valid email address'', [])
      else if code error = js ''auth/user-disabled''
        then (js ''This account has been disabled'', [])
      else if code error = js ''auth/user-not-found''
            \<or> code error = js ''auth/wrong-password''
            \<or> code error = js ''auth/invalid-credential''
        then (js ''Invalid email or password combination'', [])
      else if code error = js ''auth/too-many-requests''
        then (js ''Too many failed attempts. Please try again later'', [])
      else if code error = js ''auth/network-request-failed''
        then (js ''Network error. Please check your connection'', [])
      else (js ''An error occurred while signing in. Please try again'',
            [[js ''Firebase Auth Error:'', code error]]))"

text \<open>The state of \<open>LoginForm\<close>: its three state variables, the routes pushed with
  \<open>router.push\<close>, and the console.\<close>

record LoginForm = ui +
  email :: jsstring
  password :: jsstring
  router_pushes :: "jsstring list"
  console_errors :: "jsstring list list"

text \<open>\<open>handleEmailLogin\<close>: the \<open>try\<close> block yields the state it reached and the error
  thrown, if any; then the \<open>catch\<close> block, then \<open>finally\<close>.\<close>

definition handleEmailLogin_try :: "sdk \<Rightarrow> LoginForm \<Rightarrow> LoginForm \<times> AuthError option" where
  "handleEmailLogin_try sdk s =
     (let call = signInWithEmailAndPassword (email s) (password s);
          s1 = s\<lparr>sdk_calls := sdk_calls s @ [call]\<rparr>
      in case sdk call of
           Rejected error \<Rightarrow> (s1, Some error)
         | Resolved \<Rightarrow> (s1\<lparr>router_pushes := router_pushes s1 @ [js ''/dashboard'']\<rparr>, None))"

definition handleEmailLogin :: "sdk \<Rightarrow> LoginForm \<Rightarrow> LoginForm" where
  "handleEmailLogin sdk s =
     (let s0 = s\<lparr>defaultPrevented := True\<rparr>;
          s1 = s0\<lparr>loading := True\<rparr>;
          (s2, thrown) = handleEmailLogin_try sdk s1;
          s3 = (case thrown of
                  None \<Rightarrow> s2
                | Some error \<Rightarrow>
                    (let (message, logged) = getErrorMessage error in
                     s2\<lparr>console_errors := console_errors s2 @ logged,
                        toasts := toasts s2 @
                          [\<lparr>variant = Some (js ''destructive''),
                            title = js ''Login Failed'',
                            description = message\<rparr>]\<rparr>))
      in s3\<lparr>loading := False\<rparr>)"

section \<open>Password form\<close>

record PasswordFormData =
  currentPassword :: jsstring
  newPassword :: jsstring
  confirmPassword :: jsstring

text \<open>A settings form: the shared part and its \<open>formData\<close> state variable.\<close>

record 'fd form = ui +
  formData :: 'fd

definition PasswordForm_try ::
  "sdk \<Rightarrow> User \<Rightarrow> jsstring \<Rightarrow> PasswordFormData form
     \<Rightarrow> PasswordFormData form \<times> AuthError option" where
  "PasswordForm_try sdk user user_email_value s =
     (let credential = EmailAuthProvider_credential user_email_value (currentPassword (formData s));
          call1 = reauthenticateWithCredential user credential;
          s1 = s\<lparr>sdk_calls := sdk_calls s @ [call1]\<rparr>
      in case sdk call1 of
           Rejected error \<Rightarrow> (s1, Some error)
         | Resolved \<Rightarrow>
             (let call2 = updatePassword user (newPassword (formData s));
                  s2 = s1\<lparr>sdk_calls := sdk_calls s1 @ [call2]\<rparr>
              in case sdk call2 of
                   Rejected error \<Rightarrow> (s2, Some error)
                 | Resolved \<Rightarrow>
                     (s2\<lparr>formData := \<lparr>currentPassword = [], newPassword = [], confirmPassword = []\<rparr>,
                         toasts := toasts s2 @
                           [\<lparr>variant = None,
                             title = js ''Password Updated'',
                             description = js ''Your password has been updated successfully.''\<rparr>]\<rparr>,
                      None)))"

definition PasswordForm_catch :: "AuthError \<Rightarrow> PasswordFormData form \<Rightarrow> PasswordFormData form" where
  "PasswordForm_catch error s =
     (let errorMessage = (if code error = js ''auth/wrong-password''
                          then js ''Current password is incorrect.''
                          else js ''Failed to update password. Please try again.'')
      in s\<lparr>toasts := toasts s @
             [\<lparr>variant = Some (js ''destructive''),
               title = js ''Update Failed'',
               description = errorMessage\<rparr>]\<rparr>)"

text \<open>
  \<open>PasswordForm.handleSubmit\<close>. The guard \<open>!user?.email\<close> holds when there is no user,
  when the user's email is \<open>null\<close>, and when it is the empty string.
\<close>

definition PasswordForm_handleSubmit ::
  "sdk \<Rightarrow> User option \<Rightarrow> PasswordFormData form \<Rightarrow> PasswordFormData form" where
  "PasswordForm_handleSubmit sdk user s =
     (let s0 = s\<lparr>defaultPrevented := True\<rparr> in
      case user of
        None \<Rightarrow> s0
      | Some u \<Rightarrow>
         (case user_email u of
            None \<Rightarrow> s0
          | Some e \<Rightarrow>
             if e = [] then s0
             else if newPassword (formData s0) \<noteq> confirmPassword (formData s0) then
               s0\<lparr>toasts := toasts s0 @
                   [\<lparr>variant = Some (js ''destructive''),
                     title = js ''Password Mismatch'',
                     description = js ''New password and confirm password do not match.''\<rparr>]\<rparr>
             else if length (newPassword (formData s0)) < 6 then
               s0\<lparr>toasts := toasts s0 @
                   [\<lparr>variant = Some (js ''destructive''),
                     title = js ''Invalid Password'',
                     description = js ''Password must be at least 6 characters long.''\<rparr>]\<rparr>
             else
               (let s1 = s0\<lparr>loading := True\<rparr>;
                    (s2, thrown) = PasswordForm_try sdk u e s1;
                    s3 = (case thrown of None \<Rightarrow> s2 | Some error \<Rightarrow> PasswordForm_catch error s2)
                in s3\<lparr>loading := False\<rparr>)))"

section \<open>Profile form\<close>

text \<open>\<open>s.split(" ")\<close> for a one-unit separator: the pieces between its occurrences,
  always at least one piece.\<close>

fun js_split :: "jschar \<Rightarrow> jsstring \<Rightarrow> jsstring list" where
  "js_split sep [] = [[]]"
| "js_split sep (c # cs) =
     (if c = sep then [] # js_split sep cs
      else (case js_split sep cs of
              [] \<Rightarrow> [[c]]
            | w # ws \<Rightarrow> (c # w) # ws))"

text \<open>\<open>xs[i]\<close> is \<open>undefined\<close> out of range; \<open>x || ""\<close> replaces \<open>undefined\<close> (and the
  empty string) by the empty string.\<close>

definition index :: "'a list \<Rightarrow> nat \<Rightarrow> 'a option" where
  "index xs i = (if i < length xs then Some (xs ! i) else None)"

definition or_empty :: "jsstring option \<Rightarrow> jsstring" where
  "or_empty x = (case x of None \<Rightarrow> [] | Some v \<Rightarrow> if v = [] then [] else v)"

text \<open>\<open>String.prototype.trim\<close> strips the code units of ECMAScript's WhiteSpace and
  LineTerminator productions from both ends.\<close>

definition isWhiteSpace :: "jschar \<Rightarrow> bool" where
  "isWhiteSpace c =
     (c \<in> set [0x0009, 0x000A, 0x000B, 0x000C, 0x000D, 0x0020, 0x00A0, 0x1680,
                0x2028, 0x2029, 0x202F, 0x205F, 0x3000, 0xFEFF]
      \<or> (0x2000 \<le> c \<and> c \<le> 0x200A))"

definition trim :: "jsstring \<Rightarrow> jsstring" where
  "trim s = rev (dropWhile isWhiteSpace (rev (dropWhile isWhiteSpace s)))"

record ProfileFormData =
  firstName :: jsstring
  lastName :: jsstring

text \<open>\<open>user?.displayName?.split(" ")[i]\<close>: \<open>undefined\<close> as soon as the user or the
  display name is missing.\<close>

definition displayName_part :: "User option \<Rightarrow> nat \<Rightarrow> jsstring option" where
  "displayName_part user i =
     (case user of
        None \<Rightarrow> None
      | Some u \<Rightarrow>
         (case user_displayName u of
            None \<Rightarrow> None
          | Some d \<Rightarrow> index (js_split 0x0020 d) i))"

text \<open>The state of \<open>ProfileForm\<close> at its first render.\<close>

definition ProfileForm_initial :: "User option \<Rightarrow> ProfileFormData form" where
  "ProfileForm_initial user =
     \<lparr>defaultPrevented = False, loading = False, toasts = [], sdk_calls = [],
      formData = \<lparr>firstName = or_empty (displayName_part user 0),
                  lastName = or_empty (displayName_part user 1)\<rparr>\<rparr>"

definition ProfileForm_try ::
  "sdk \<Rightarrow> User \<Rightarrow> ProfileFormData form \<Rightarrow> ProfileFormData form \<times> AuthError option" where
  "ProfileForm_try sdk user s =
     (let fullName = trim (firstName (formData s) @ [0x0020] @ lastName (formData s));
          call = updateProfile user fullName;
          s1 = s\<lparr>sdk_calls := sdk_calls s @ [call]\<rparr>
      in case sdk call of
           Rejected error \<Rightarrow> (s1, Some error)
         | Resolved \<Rightarrow>
             (s1\<lparr>toasts := toasts s1 @
                   [\<lparr>variant = None,
                     title = js ''Profile Updated'',
                     description = js ''Your profile information has been updated successfully.''\<rparr>]\<rparr>,
              None))"

definition ProfileForm_handleSubmit ::
  "sdk \<Rightarrow> User option \<Rightarrow> ProfileFormData form \<Rightarrow> ProfileFormData form" where
  "ProfileForm_handleSubmit sdk user s =
     (let s0 = s\<lparr>defaultPrevented := True\<rparr> in
      case user of
        None \<Rightarrow> s0
      | Some u \<Rightarrow>
         (let s1 = s0\<lparr>loading := True\<rparr>;
              (s2, thrown) = ProfileForm_try sdk u s1;
              s3 = (case thrown of
                      None \<Rightarrow> s2
                    | Some error \<Rightarrow>
                        s2\<lparr>toasts := toasts s2 @
                            [\<lparr>variant = Some (js ''destructive''),
                              title = js ''Update Failed'',
                              description = js ''Failed to update profile. Please try again.''\<rparr>]\<rparr>)
          in s3\<lparr>loading := False\<rparr>))"

section \<open>Vocabulary for the claims about display names\<close>

text \<open>A word is a non-empty string without white space; white space at the ends of a
  string is what \<open>trim\<close> removes.\<close>

definition is_word :: "jsstring \<Rightarrow> bool" where
  "is_word w = (w \<noteq> [] \<and> list_all (\<lambda>c. \<not> isWhiteSpace c) w)"

definition starts_with_whitespace :: "jsstring \<Rightarrow> bool" where
  "starts_with_whitespace s = (case s of [] \<Rightarrow> False | c # _ \<Rightarrow> isWhiteSpace c)"

definition ends_with_whitespace :: "jsstring \<Rightarrow> bool" where
  "ends_with_whitespace s = starts_with_whitespace (rev s)"

section \<open>Facts about string literals\<close>

text \<open>Distinct ASCII literals stay distinct as sequences of code units.\<close>

lemma of_char_word_inj: "((of_char c :: 16 word) = of_char d) = (c = d)"
proof
  assume "(of_char c :: 16 word) = of_char d"
  then have "(of_nat (of_char c) :: 16 word) = of_nat (of_char d)" by (simp only: of_nat_of_char)
  then have "take_bit 16 (of_char c :: nat) = take_bit 16 (of_char d :: nat)"
    by (simp add: word_of_nat_eq_iff)
  moreover have "(of_char c :: nat) < 2 ^ 16"
    using nat_of_char_less_256 [of c] by (rule less_trans) simp
  moreover have "(of_char d :: nat) < 2 ^ 16"
    using nat_of_char_less_256 [of d] by (rule less_trans) simp
  ultimately have "(of_char c :: nat) = of_char d"
    by (simp add: take_bit_nat_eq_self)
  then show "c = d" by simp
qed simp

lemma js_eq_iff [simp]: "(js a = js b) = (a = b)"
  unfolding js_def by (rule inj_map_eq_map) (simp add: inj_on_def of_char_word_inj)

lemma js_Nil_iff [simp]: "(js a = []) = (a = [])" "([] = js a) = (a = [])"
  by (auto simp add: js_def)

section \<open>Properties of the middleware\<close>

lemma truthy_cookies_get:
  "truthy_obj (cookies_get request n) = (cookies request n \<noteq> None)"
  by (simp add: truthy_obj_def cookies_get_def split: option.splits)

lemma middleware_cases:
  "middleware request =
     (if cookies request (js ''auth-token'') = None
      then (if nextUrl_pathname request = js ''/login'' then NextResponse_next
            else NextResponse_redirect (URL (js ''/login'') (url request)))
      else (if nextUrl_pathname request = js ''/login''
            then NextResponse_redirect (URL (js ''/dashboard'') (url request))
            else NextResponse_next))"
  by (simp add: middleware_def truthy_cookies_get Let_def)

text \<open>
  Claim C1. A request whose pathname is not \<open>/login\<close> and which carries no
  \<open>auth-token\<close> cookie is answered with a redirect to \<open>/login\<close> (resolved against the
  request's own URL).
\<close>

theorem middleware_unauthenticated_redirects_to_login:
  assumes "nextUrl_pathname request \<noteq> js ''/login''"
    and "cookies request (js ''auth-token'') = None"
  shows "middleware request = NextResponse_redirect (URL (js ''/login'') (url request))"
  using assms by (simp add: middleware_cases)

theorem middleware_unauthenticated_redirects_to_login_witness:
  "nextUrl_pathname \<lparr>nextUrl_pathname = js ''/dashboard'', url = js ''http://localhost:3000/dashboard'',
                      cookies = Map.empty\<rparr> \<noteq> js ''/login''
   \<and> cookies \<lparr>nextUrl_pathname = js ''/dashboard'', url = js ''http://localhost:3000/dashboard'',
                      cookies = Map.empty\<rparr> (js ''auth-token'') = None
   \<and> middleware \<lparr>nextUrl_pathname = js ''/dashboard'', url = js ''http://localhost:3000/dashboard'',
                      cookies = Map.empty\<rparr>
       = NextResponse_redirect (URL (js ''/login'') (js ''http://localhost:3000/dashboard''))"
proof -
  let ?r = "\<lparr>nextUrl_pathname = js ''/dashboard'', url = js ''http://localhost:3000/dashboard'',
             cookies = Map.empty\<rparr>"
  have p: "nextUrl_pathname ?r \<noteq> js ''/login''" by (simp add: js_def)
  have c: "cookies ?r (js ''auth-token'') = None" by simp
  from middleware_unauthenticated_redirects_to_login [OF p c] p c show ?thesis by simp
qed

text \<open>
  Claim C2. A request for \<open>/login\<close> that carries an \<open>auth-token\<close> cookie is redirected
  to \<open>/dashboard\<close>; a request that falls into neither redirect branch is passed
  through with \<open>NextResponse.next()\<close>.
\<close>

theorem middleware_authenticated_leaves_login_else_next:
  "(nextUrl_pathname request = js ''/login'' \<and> cookies request (js ''auth-token'') \<noteq> None
      \<longrightarrow> middleware request = NextResponse_redirect (URL (js ''/dashboard'') (url request)))
   \<and> (\<not> (cookies request (js ''auth-token'') = None \<and> nextUrl_pathname request \<noteq> js ''/login'')
      \<and> \<not> (cookies request (js ''auth-token'') \<noteq> None \<and> nextUrl_pathname request = js ''/login'')
      \<longrightarrow> middleware request = NextResponse_next)"
  by (simp add: middleware_cases)

theorem middleware_authenticated_leaves_login_else_next_witness:
  "middleware \<lparr>nextUrl_pathname = js ''/login'', url = js ''http://localhost:3000/login'',
               cookies = [js ''auth-token'' \<mapsto> js ''t0k3n'']\<rparr>
     = NextResponse_redirect (URL (js ''/dashboard'') (js ''http://localhost:3000/login''))
   \<and> middleware \<lparr>nextUrl_pathname = js ''/settings'', url = js ''http://localhost:3000/settings'',
               cookies = [js ''auth-token'' \<mapsto> js ''t0k3n'']\<rparr>
     = NextResponse_next
   \<and> middleware \<lparr>nextUrl_pathname = js ''/login'', url = js ''http://localhost:3000/login'',
               cookies = Map.empty\<rparr>
     = NextResponse_next"
proof -
  let ?a = "\<lparr>nextUrl_pathname = js ''/login'', url = js ''http://localhost:3000/login'',
             cookies = [js ''auth-token'' \<mapsto> js ''t0k3n'']\<rparr>"
  let ?b = "\<lparr>nextUrl_pathname = js ''/settings'', url = js ''http://localhost:3000/settings'',
             cookies = [js ''auth-token'' \<mapsto> js ''t0k3n'']\<rparr>"
  let ?c = "\<lparr>nextUrl_pathname = js ''/login'', url = js ''http://localhost:3000/login'',
             cookies = Map.empty\<rparr>"
  have ne: "js ''/settings'' \<noteq> js ''/login''" by (simp add: js_def)
  have "middleware ?a = NextResponse_redirect (URL (js ''/dashboard'') (url ?a))"
    using middleware_authenticated_leaves_login_else_next [of ?a] by simp
  moreover have "middleware ?b = NextResponse_next"
    using middleware_authenticated_leaves_login_else_next [of ?b] ne by simp
  moreover have "middleware ?c = NextResponse_next"
    using middleware_authenticated_leaves_login_else_next [of ?c] by simp
  ultimately show ?thesis by simp
qed

text \<open>
  Claim C3. The two-branch middleware and the single-conditional reference definition
  (redirect iff cookie presence equals "pathname is \<open>/login\<close>", to \<open>/login\<close> without the
  cookie and to \<open>/dashboard\<close> with it) give the same response on every request.
\<close>

theorem middleware_equals_single_conditional:
  "middleware request = middleware_single_conditional request"
  by (simp add: middleware_cases middleware_single_conditional_def Let_def)

text \<open>
  Claim C4. Two requests with the same pathname and the same presence status of the
  \<open>auth-token\<close> cookie get the same decision (the same redirect path, or both
  pass-through), whatever the cookie's value and whatever else the requests carry; the
  full responses differ at most in the base URL the redirect path is resolved against.
\<close>

theorem middleware_decision_depends_on_presence_and_pathname:
  fixes r1 :: "'a NextRequest_scheme" and r2 :: "'b NextRequest_scheme"
  assumes "nextUrl_pathname r1 = nextUrl_pathname r2"
    and "(cookies r1 (js ''auth-token'') = None) = (cookies r2 (js ''auth-token'') = None)"
  shows "decision (middleware r1) = decision (middleware r2)
         \<and> (url r1 = url r2 \<longrightarrow> middleware r1 = middleware r2)"
  using assms by (simp add: middleware_cases)

theorem middleware_decision_depends_on_presence_and_pathname_witness:
  "decision (middleware \<lparr>nextUrl_pathname = js ''/login'', url = js ''http://localhost:3000/login'',
               cookies = [js ''auth-token'' \<mapsto> js ''t0k3n'']\<rparr>)
   = decision (middleware \<lparr>nextUrl_pathname = js ''/login'', url = js ''https://example.org/login?x=1'',
               cookies = [js ''auth-token'' \<mapsto> [], js ''theme'' \<mapsto> js ''dark''],
               \<dots> = True\<rparr>)
   \<and> decision (middleware \<lparr>nextUrl_pathname = js ''/login'', url = js ''http://localhost:3000/login'',
               cookies = [js ''auth-token'' \<mapsto> js ''t0k3n'']\<rparr>) = Some (js ''/dashboard'')"
proof -
  let ?a = "\<lparr>nextUrl_pathname = js ''/login'', url = js ''http://localhost:3000/login'',
             cookies = [js ''auth-token'' \<mapsto> js ''t0k3n'']\<rparr>"
  let ?b = "\<lparr>nextUrl_pathname = js ''/login'', url = js ''https://example.org/login?x=1'',
             cookies = [js ''auth-token'' \<mapsto> [], js ''theme'' \<mapsto> js ''dark''],
             \<dots> = True\<rparr>"
  have ne: "js ''theme'' \<noteq> js ''auth-token''" by (simp add: js_def)
  have p: "nextUrl_pathname ?a = nextUrl_pathname ?b" by simp
  have c: "(cookies ?a (js ''auth-token'') = None) = (cookies ?b (js ''auth-token'') = None)"
    using ne by simp
  have d: "decision (middleware ?a) = Some (js ''/dashboard'')"
    by (simp add: middleware_cases)
  from middleware_decision_depends_on_presence_and_pathname [OF p c] d show ?thesis by simp
qed

section \<open>Properties of the login form\<close>

lemma getErrorMessage_nonempty: "fst (getErrorMessage error) \<noteq> []"
  by (simp add: getErrorMessage_def)

lemma getErrorMessage_fallback_iff:
  "(fst (getErrorMessage error) = js ''An error occurred while signing in. Please try again'')
   = (code error \<notin> set [js ''auth/invalid-email'', js ''auth/user-disabled'', js ''auth/user-not-found'',
             js ''auth/wrong-password'', js ''auth/invalid-credential'',
             js ''auth/too-many-requests'', js ''auth/network-request-failed''])"
  by (simp add: getErrorMessage_def)

text \<open>
  Claim C5, as the code has it. \<open>getErrorMessage\<close> returns a non-empty message for
  every error code; \<open>auth/user-not-found\<close>, \<open>auth/wrong-password\<close> and
  \<open>auth/invalid-credential\<close> share the message "Invalid email or password
  combination"; and every code outside the seven that the \<open>switch\<close> names gets the
  generic fallback message.
\<close>

theorem getErrorMessage_total_and_seven_codes:
  "fst (getErrorMessage error) \<noteq> []
   \<and> fst (getErrorMessage \<lparr>code = js ''auth/user-not-found''\<rparr>) = js ''Invalid email or password combination''
   \<and> fst (getErrorMessage \<lparr>code = js ''auth/wrong-password''\<rparr>) = js ''Invalid email or password combination''
   \<and> fst (getErrorMessage \<lparr>code = js ''auth/invalid-credential''\<rparr>) = js ''Invalid email or password combination''
   \<and> (code error \<notin> set [js ''auth/invalid-email'', js ''auth/user-disabled'', js ''auth/user-not-found'',
             js ''auth/wrong-password'', js ''auth/invalid-credential'',
             js ''auth/too-many-requests'', js ''auth/network-request-failed'']
       \<longrightarrow> fst (getErrorMessage error) = js ''An error occurred while signing in. Please try again'')"
proof -
  have a: "fst (getErrorMessage \<lparr>code = js ''auth/user-not-found''\<rparr>) = js ''Invalid email or password combination''"
    by (simp add: getErrorMessage_def)
  have b: "fst (getErrorMessage \<lparr>code = js ''auth/wrong-password''\<rparr>) = js ''Invalid email or password combination''"
    by (simp add: getErrorMessage_def)
  have c: "fst (getErrorMessage \<lparr>code = js ''auth/invalid-credential''\<rparr>) = js ''Invalid email or password combination''"
    by (simp add: getErrorMessage_def)
  show ?thesis using a b c getErrorMessage_nonempty getErrorMessage_fallback_iff by blast
qed

theorem getErrorMessage_total_and_seven_codes_witness:
  "fst (getErrorMessage \<lparr>code = js ''auth/popup-closed-by-user''\<rparr>)
     = js ''An error occurred while signing in. Please try again''
   \<and> fst (getErrorMessage \<lparr>code = js ''auth/popup-closed-by-user''\<rparr>) \<noteq> []"
  using getErrorMessage_total_and_seven_codes [of "\<lparr>code = js ''auth/popup-closed-by-user''\<rparr>"]
  by simp

text \<open>
  The claim speaks of six handled codes. No set of six codes has the property that every
  code outside it gets the fallback message: the \<open>switch\<close> names seven distinct codes,
  and none of them maps to the fallback.
\<close>

theorem getErrorMessage_six_codes_counterexample:
  "\<not> (\<exists>S. finite S \<and> card S = 6 \<and>
         (\<forall>error :: AuthError. code error \<notin> S \<longrightarrow>
            fst (getErrorMessage error) = js ''An error occurred while signing in. Please try again''))"
proof
  let ?H = "[js ''auth/invalid-email'', js ''auth/user-disabled'', js ''auth/user-not-found'',
             js ''auth/wrong-password'', js ''auth/invalid-credential'',
             js ''auth/too-many-requests'', js ''auth/network-request-failed'']"
  assume "\<exists>S. finite S \<and> card S = 6 \<and>
         (\<forall>error :: AuthError. code error \<notin> S \<longrightarrow>
            fst (getErrorMessage error) = js ''An error occurred while signing in. Please try again'')"
  then obtain S where fin: "finite S" and six: "card S = 6"
    and out: "\<And>error :: AuthError. code error \<notin> S \<Longrightarrow>
            fst (getErrorMessage error) = js ''An error occurred while signing in. Please try again''"
    by blast
  have "set ?H \<subseteq> S"
  proof
    fix c assume c: "c \<in> set ?H"
    show "c \<in> S"
    proof (rule ccontr)
      assume "c \<notin> S"
      then have "code \<lparr>code = c\<rparr> \<notin> S" by simp
      from out [OF this] have "c \<notin> set ?H"
        using getErrorMessage_fallback_iff [of "\<lparr>code = c\<rparr>"] by simp
      with c show False by simp
    qed
  qed
  with fin have "card (set ?H) \<le> card S" by (rule card_mono)
  moreover have "distinct ?H" by simp
  then have "card (set ?H) = length ?H" by (rule distinct_card)
  ultimately show False using six by simp
qed

lemma handleEmailLogin_Resolved:
  assumes "sdk (signInWithEmailAndPassword (email s) (password s)) = Resolved"
  shows "handleEmailLogin sdk s =
           s\<lparr>defaultPrevented := True, loading := False,
             sdk_calls := sdk_calls s @ [signInWithEmailAndPassword (email s) (password s)],
             router_pushes := router_pushes s @ [js ''/dashboard'']\<rparr>"
  using assms by (simp add: handleEmailLogin_def handleEmailLogin_try_def Let_def)

lemma handleEmailLogin_Rejected:
  assumes "sdk (signInWithEmailAndPassword (email s) (password s)) = Rejected error"
  shows "handleEmailLogin sdk s =
           s\<lparr>defaultPrevented := True, loading := False,
             sdk_calls := sdk_calls s @ [signInWithEmailAndPassword (email s) (password s)],
             toasts := toasts s @
               [\<lparr>variant = Some (js ''destructive''), title = js ''Login Failed'',
                 description = fst (getErrorMessage error)\<rparr>],
             console_errors := console_errors s @ snd (getErrorMessage error)\<rparr>"
  using assms
  by (simp add: handleEmailLogin_def handleEmailLogin_try_def Let_def split: prod.splits)

text \<open>
  Claim C7. When the SDK rejects the sign-in, \<open>handleEmailLogin\<close> pushes no route and
  shows one destructive toast, titled "Login Failed", whose description is
  \<open>getErrorMessage\<close> of the error; \<open>/dashboard\<close> is pushed if and only if the sign-in
  resolves; in both cases \<open>loading\<close> is false when the handler is done.
\<close>

theorem handleEmailLogin_navigates_iff_sign_in_succeeds:
  "(\<forall>error. sdk (signInWithEmailAndPassword (email s) (password s)) = Rejected error \<longrightarrow>
      router_pushes (handleEmailLogin sdk s) = router_pushes s
      \<and> toasts (handleEmailLogin sdk s) = toasts s @
            [\<lparr>variant = Some (js ''destructive''), title = js ''Login Failed'',
              description = fst (getErrorMessage error)\<rparr>])
   \<and> ((router_pushes (handleEmailLogin sdk s) = router_pushes s @ [js ''/dashboard''])
        = (sdk (signInWithEmailAndPassword (email s) (password s)) = Resolved))
   \<and> ((router_pushes (handleEmailLogin sdk s) \<noteq> router_pushes s)
        = (sdk (signInWithEmailAndPassword (email s) (password s)) = Resolved))
   \<and> \<not> loading (handleEmailLogin sdk s)"
proof (cases "sdk (signInWithEmailAndPassword (email s) (password s))")
  case Resolved
  then show ?thesis by (simp add: handleEmailLogin_Resolved)
next
  case (Rejected error)
  then show ?thesis by (simp add: handleEmailLogin_Rejected)
qed

theorem handleEmailLogin_navigates_iff_sign_in_succeeds_witness:
  "router_pushes (handleEmailLogin (\<lambda>_. Rejected \<lparr>code = js ''auth/wrong-password''\<rparr>)
      \<lparr>defaultPrevented = False, loading = False, toasts = [], sdk_calls = [],
       email = js ''ada@example.org'', password = js ''guess'',
       router_pushes = [], console_errors = []\<rparr>) = []
   \<and> toasts (handleEmailLogin (\<lambda>_. Rejected \<lparr>code = js ''auth/wrong-password''\<rparr>)
      \<lparr>defaultPrevented = False, loading = False, toasts = [], sdk_calls = [],
       email = js ''ada@example.org'', password = js ''guess'',
       router_pushes = [], console_errors = []\<rparr>)
     = [\<lparr>variant = Some (js ''destructive''), title = js ''Login Failed'',
         description = js ''Invalid email or password combination''\<rparr>]
   \<and> \<not> loading (handleEmailLogin (\<lambda>_. Rejected \<lparr>code = js ''auth/wrong-password''\<rparr>)
      \<lparr>defaultPrevented = False, loading = False, toasts = [], sdk_calls = [],
       email = js ''ada@example.org'', password = js ''guess'',
       router_pushes = [], console_errors = []\<rparr>)
   \<and> router_pushes (handleEmailLogin (\<lambda>_. Resolved)
      \<lparr>defaultPrevented = False, loading = False, toasts = [], sdk_calls = [],
       email = js ''ada@example.org'', password = js ''s3cret'',
       router_pushes = [], console_errors = []\<rparr>) = [js ''/dashboard'']"
proof -
  let ?bad = "\<lambda>_ :: sdk_call. Rejected \<lparr>code = js ''auth/wrong-password''\<rparr>"
  let ?ok = "\<lambda>_ :: sdk_call. Resolved"
  let ?s = "\<lparr>defaultPrevented = False, loading = False, toasts = [], sdk_calls = [],
       email = js ''ada@example.org'', password = js ''guess'',
       router_pushes = [], console_errors = []\<rparr>"
  let ?t = "\<lparr>defaultPrevented = False, loading = False, toasts = [], sdk_calls = [],
       email = js ''ada@example.org'', password = js ''s3cret'',
       router_pushes = [], console_errors = []\<rparr>"
  have m: "fst (getErrorMessage \<lparr>code = js ''auth/wrong-password''\<rparr>)
             = js ''Invalid email or password combination''"
    by (simp add: getErrorMessage_def)
  from handleEmailLogin_navigates_iff_sign_in_succeeds [of ?bad ?s] m
    handleEmailLogin_navigates_iff_sign_in_succeeds [of ?ok ?t]
  show ?thesis by simp
qed

section \<open>Properties of the password form\<close>

text \<open>
  What \<open>PasswordForm.handleSubmit\<close> returns on each of its paths: without a user email,
  on either validation failure, when re-authentication is rejected, when the password
  update is rejected, and on success.
\<close>

lemma PasswordForm_silent:
  assumes "user = None \<or> (\<exists>u. user = Some u \<and> (user_email u = None \<or> user_email u = Some []))"
  shows "PasswordForm_handleSubmit sdk user s = s\<lparr>defaultPrevented := True\<rparr>"
  using assms by (auto simp add: PasswordForm_handleSubmit_def)

lemma PasswordForm_mismatch:
  assumes "user = Some u" "user_email u = Some e" "e \<noteq> []"
    and "newPassword (formData s) \<noteq> confirmPassword (formData s)"
  shows "PasswordForm_handleSubmit sdk user s =
           s\<lparr>defaultPrevented := True,
             toasts := toasts s @
               [\<lparr>variant = Some (js ''destructive''), title = js ''Password Mismatch'',
                 description = js ''New password and confirm password do not match.''\<rparr>]\<rparr>"
  using assms by (simp add: PasswordForm_handleSubmit_def)

lemma PasswordForm_too_short:
  assumes "user = Some u" "user_email u = Some e" "e \<noteq> []"
    and "newPassword (formData s) = confirmPassword (formData s)"
    and "length (newPassword (formData s)) < 6"
  shows "PasswordForm_handleSubmit sdk user s =
           s\<lparr>defaultPrevented := True,
             toasts := toasts s @
               [\<lparr>variant = Some (js ''destructive''), title = js ''Invalid Password'',
                 description = js ''Password must be at least 6 characters long.''\<rparr>]\<rparr>"
  using assms by (simp add: PasswordForm_handleSubmit_def)

lemma PasswordForm_reauthenticate_rejected:
  assumes "user = Some u" "user_email u = Some e" "e \<noteq> []"
    and "newPassword (formData s) = confirmPassword (formData s)"
    and "6 \<le> length (newPassword (formData s))"
    and "sdk (reauthenticateWithCredential u
                (EmailAuthProvider_credential e (currentPassword (formData s)))) = Rejected error"
  shows "PasswordForm_handleSubmit sdk user s =
           s\<lparr>defaultPrevented := True, loading := False,
             sdk_calls := sdk_calls s @
               [reauthenticateWithCredential u
                  (EmailAuthProvider_credential e (currentPassword (formData s)))],
             toasts := toasts s @
               [\<lparr>variant = Some (js ''destructive''), title = js ''Update Failed'',
                 description = (if code error = js ''auth/wrong-password''
                                then js ''Current password is incorrect.''
                                else js ''Failed to update password. Please try again.'')\<rparr>]\<rparr>"
  using assms
  by (simp add: PasswordForm_handleSubmit_def PasswordForm_try_def PasswordForm_catch_def Let_def)

lemma PasswordForm_update_rejected:
  assumes "user = Some u" "user_email u = Some e" "e \<noteq> []"
    and "newPassword (formData s) = confirmPassword (formData s)"
    and "6 \<le> length (newPassword (formData s))"
    and "sdk (reauthenticateWithCredential u
                (EmailAuthProvider_credential e (currentPassword (formData s)))) = Resolved"
    and "sdk (updatePassword u (newPassword (formData s))) = Rejected error"
  shows "PasswordForm_handleSubmit sdk user s =
           s\<lparr>defaultPrevented := True, loading := False,
             sdk_calls := sdk_calls s @
               [reauthenticateWithCredential u
                  (EmailAuthProvider_credential e (currentPassword (formData s))),
                updatePassword u (newPassword (formData s))],
             toasts := toasts s @
               [\<lparr>variant = Some (js ''destructive''), title = js ''Update Failed'',
                 description = (if code error = js ''auth/wrong-password''
                                then js ''Current password is incorrect.''
                                else js ''Failed to update password. Please try again.'')\<rparr>]\<rparr>"
  using assms
  by (simp add: PasswordForm_handleSubmit_def PasswordForm_try_def PasswordForm_catch_def Let_def)

lemma PasswordForm_success:
  assumes "user = Some u" "user_email u = Some e" "e \<noteq> []"
    and "newPassword (formData s) = confirmPassword (formData s)"
    and "6 \<le> length (newPassword (formData s))"
    and "sdk (reauthenticateWithCredential u
                (EmailAuthProvider_credential e (currentPassword (formData s)))) = Resolved"
    and "sdk (updatePassword u (newPassword (formData s))) = Resolved"
  shows "PasswordForm_handleSubmit sdk user s =
           s\<lparr>defaultPrevented := True, loading := False,
             sdk_calls := sdk_calls s @
               [reauthenticateWithCredential u
                  (EmailAuthProvider_credential e (currentPassword (formData s))),
                updatePassword u (newPassword (formData s))],
             formData := \<lparr>currentPassword = [], newPassword = [], confirmPassword = []\<rparr>,
             toasts := toasts s @
               [\<lparr>variant = None, title = js ''Password Updated'',
                 description = js ''Your password has been updated successfully.''\<rparr>]\<rparr>"
  using assms
  by (simp add: PasswordForm_handleSubmit_def PasswordForm_try_def Let_def)

text \<open>
  Claim C8, as the code has it. When \<open>newPassword\<close> differs from \<open>confirmPassword\<close>
  or is shorter than 6 code units, \<open>handleSubmit\<close> invokes no SDK operation and leaves
  the three fields and \<open>loading\<close> as they were. If a user with a non-empty email is
  signed in, it shows one destructive toast (the mismatch toast first, else the
  too-short toast); if there is no user, or the user has no email or an empty one, it
  returns before validation and shows no toast.
\<close>

theorem PasswordForm_validation_failure_is_atomic:
  assumes "newPassword (formData s) \<noteq> confirmPassword (formData s)
           \<or> length (newPassword (formData s)) < 6"
  shows "sdk_calls (PasswordForm_handleSubmit sdk user s) = sdk_calls s
         \<and> formData (PasswordForm_handleSubmit sdk user s) = formData s
         \<and> loading (PasswordForm_handleSubmit sdk user s) = loading s
         \<and> (\<forall>u e. user = Some u \<and> user_email u = Some e \<and> e \<noteq> [] \<longrightarrow>
               toasts (PasswordForm_handleSubmit sdk user s) = toasts s @
                 [if newPassword (formData s) \<noteq> confirmPassword (formData s)
                  then \<lparr>variant = Some (js ''destructive''), title = js ''Password Mismatch'',
                        description = js ''New password and confirm password do not match.''\<rparr>
                  else \<lparr>variant = Some (js ''destructive''), title = js ''Invalid Password'',
                        description = js ''Password must be at least 6 characters long.''\<rparr>])
         \<and> (user = None \<or> (\<exists>u. user = Some u \<and> (user_email u = None \<or> user_email u = Some []))
               \<longrightarrow> toasts (PasswordForm_handleSubmit sdk user s) = toasts s)"
proof (cases "user = None \<or> (\<exists>u. user = Some u \<and> (user_email u = None \<or> user_email u = Some []))")
  case True
  from PasswordForm_silent [OF True] True show ?thesis by auto
next
  case False
  then obtain u e where ue: "user = Some u" "user_email u = Some e" "e \<noteq> []"
    by (cases user) auto
  show ?thesis
  proof (cases "newPassword (formData s) \<noteq> confirmPassword (formData s)")
    case True
    from PasswordForm_mismatch [OF ue True] ue True show ?thesis by simp
  next
    case eq: False
    with assms have short: "length (newPassword (formData s)) < 6" by simp
    from eq have eq': "newPassword (formData s) = confirmPassword (formData s)" by simp
    from PasswordForm_too_short [OF ue eq' short] ue eq' show ?thesis by simp
  qed
qed

theorem PasswordForm_validation_failure_is_atomic_witness:
  "toasts (PasswordForm_handleSubmit (\<lambda>_. Resolved)
      (Some \<lparr>user_email = Some (js ''ada@example.org''), user_displayName = None\<rparr>)
      \<lparr>defaultPrevented = False, loading = False, toasts = [], sdk_calls = [],
       formData = \<lparr>currentPassword = js ''old-secret'', newPassword = js ''abc'',
                   confirmPassword = js ''abc''\<rparr>\<rparr>)
     = [\<lparr>variant = Some (js ''destructive''), title = js ''Invalid Password'',
         description = js ''Password must be at least 6 characters long.''\<rparr>]
   \<and> sdk_calls (PasswordForm_handleSubmit (\<lambda>_. Resolved)
      (Some \<lparr>user_email = Some (js ''ada@example.org''), user_displayName = None\<rparr>)
      \<lparr>defaultPrevented = False, loading = False, toasts = [], sdk_calls = [],
       formData = \<lparr>currentPassword = js ''old-secret'', newPassword = js ''abc'',
                   confirmPassword = js ''abc''\<rparr>\<rparr>) = []
   \<and> formData (PasswordForm_handleSubmit (\<lambda>_. Resolved)
      (Some \<lparr>user_email = Some (js ''ada@example.org''), user_displayName = None\<rparr>)
      \<lparr>defaultPrevented = False, loading = False, toasts = [], sdk_calls = [],
       formData = \<lparr>currentPassword = js ''old-secret'', newPassword = js ''abc'',
                   confirmPassword = js ''abc''\<rparr>\<rparr>)
     = \<lparr>currentPassword = js ''old-secret'', newPassword = js ''abc'', confirmPassword = js ''abc''\<rparr>"
proof -
  let ?u = "\<lparr>user_email = Some (js ''ada@example.org''), user_displayName = None\<rparr>"
  let ?s = "\<lparr>defaultPrevented = False, loading = False, toasts = [], sdk_calls = [],
       formData = \<lparr>currentPassword = js ''old-secret'', newPassword = js ''abc'',
                   confirmPassword = js ''abc''\<rparr>\<rparr>"
  have h: "newPassword (formData ?s) \<noteq> confirmPassword (formData ?s)
           \<or> length (newPassword (formData ?s)) < 6"
    by (simp add: js_def)
  from PasswordForm_validation_failure_is_atomic [OF h, of "\<lambda>_. Resolved" "Some ?u"]
  show ?thesis by simp
qed

text \<open>
  The claim promises the error toast for every such submission. With nobody signed in,
  a submission with mismatching passwords shows no toast.
\<close>

theorem PasswordForm_no_user_no_toast_counterexample:
  "newPassword (formData
      \<lparr>defaultPrevented = False, loading = False, toasts = [], sdk_calls = [],
       formData = \<lparr>currentPassword = js ''old-secret'', newPassword = js ''new-secret'',
                   confirmPassword = js ''new-secre7''\<rparr>\<rparr>)
     \<noteq> confirmPassword (formData
      \<lparr>defaultPrevented = False, loading = False, toasts = [], sdk_calls = [],
       formData = \<lparr>currentPassword = js ''old-secret'', newPassword = js ''new-secret'',
                   confirmPassword = js ''new-secre7''\<rparr>\<rparr>)
   \<and> toasts (PasswordForm_handleSubmit (\<lambda>_. Resolved) None
      \<lparr>defaultPrevented = False, loading = False, toasts = [], sdk_calls = [],
       formData = \<lparr>currentPassword = js ''old-secret'', newPassword = js ''new-secret'',
                   confirmPassword = js ''new-secre7''\<rparr>\<rparr>) = []"
  by (simp add: PasswordForm_handleSubmit_def)

text \<open>
  Claim C9. For a submission that passes validation (a user with a non-empty email,
  matching passwords of at least 6 code units), the three fields are the empty string
  afterwards if and only if re-authentication and the password update both resolve; if
  either is rejected the fields keep their values and the only toast shown is the
  destructive "Update Failed" toast.
\<close>

theorem PasswordForm_fields_cleared_exactly_on_success:
  assumes "user = Some u" and "user_email u = Some e" and "e \<noteq> []"
    and "newPassword (formData s) = confirmPassword (formData s)"
    and "6 \<le> length (newPassword (formData s))"
  shows "((formData (PasswordForm_handleSubmit sdk user s)
             = \<lparr>currentPassword = [], newPassword = [], confirmPassword = []\<rparr>)
          = (sdk (reauthenticateWithCredential u
                   (EmailAuthProvider_credential e (currentPassword (formData s)))) = Resolved
             \<and> sdk (updatePassword u (newPassword (formData s))) = Resolved))
         \<and> (\<forall>error.
               sdk (reauthenticateWithCredential u
                      (EmailAuthProvider_credential e (currentPassword (formData s)))) = Rejected error
               \<or> (sdk (reauthenticateWithCredential u
                      (EmailAuthProvider_credential e (currentPassword (formData s)))) = Resolved
                  \<and> sdk (updatePassword u (newPassword (formData s))) = Rejected error)
               \<longrightarrow> formData (PasswordForm_handleSubmit sdk user s) = formData s
                 \<and> toasts (PasswordForm_handleSubmit sdk user s) = toasts s @
                      [\<lparr>variant = Some (js ''destructive''), title = js ''Update Failed'',
                        description = (if code error = js ''auth/wrong-password''
                                       then js ''Current password is incorrect.''
                                       else js ''Failed to update password. Please try again.'')\<rparr>])"
proof -
  let ?re = "reauthenticateWithCredential u
               (EmailAuthProvider_credential e (currentPassword (formData s)))"
  let ?up = "updatePassword u (newPassword (formData s))"
  from assms(5) have ne: "formData s \<noteq> \<lparr>currentPassword = [], newPassword = [], confirmPassword = []\<rparr>"
    by auto
  show ?thesis
  proof (cases "sdk ?re")
    case (Rejected error)
    from PasswordForm_reauthenticate_rejected [where sdk = sdk, OF assms Rejected] Rejected ne
    show ?thesis by simp
  next
    case Resolved
    show ?thesis
    proof (cases "sdk ?up")
      case (Rejected error)
      from PasswordForm_update_rejected [where sdk = sdk, OF assms Resolved Rejected] Resolved Rejected ne
      show ?thesis by simp
    next
      case r2: Resolved
      from PasswordForm_success [where sdk = sdk, OF assms Resolved r2] Resolved r2
      show ?thesis by simp
    qed
  qed
qed

theorem PasswordForm_fields_cleared_exactly_on_success_witness:
  "formData (PasswordForm_handleSubmit (\<lambda>_. Resolved)
      (Some \<lparr>user_email = Some (js ''ada@example.org''), user_displayName = None\<rparr>)
      \<lparr>defaultPrevented = False, loading = False, toasts = [], sdk_calls = [],
       formData = \<lparr>currentPassword = js ''old-secret'', newPassword = js ''new-secret'',
                   confirmPassword = js ''new-secret''\<rparr>\<rparr>)
     = \<lparr>currentPassword = [], newPassword = [], confirmPassword = []\<rparr>
   \<and> formData (PasswordForm_handleSubmit
      (\<lambda>c. case c of updatePassword _ _ \<Rightarrow> Rejected \<lparr>code = js ''auth/weak-password''\<rparr>
                   | _ \<Rightarrow> Resolved)
      (Some \<lparr>user_email = Some (js ''ada@example.org''), user_displayName = None\<rparr>)
      \<lparr>defaultPrevented = False, loading = False, toasts = [], sdk_calls = [],
       formData = \<lparr>currentPassword = js ''old-secret'', newPassword = js ''new-secret'',
                   confirmPassword = js ''new-secret''\<rparr>\<rparr>)
     = \<lparr>currentPassword = js ''old-secret'', newPassword = js ''new-secret'',
        confirmPassword = js ''new-secret''\<rparr>
   \<and> toasts (PasswordForm_handleSubmit
      (\<lambda>c. case c of updatePassword _ _ \<Rightarrow> Rejected \<lparr>code = js ''auth/weak-password''\<rparr>
                   | _ \<Rightarrow> Resolved)
      (Some \<lparr>user_email = Some (js ''ada@example.org''), user_displayName = None\<rparr>)
      \<lparr>defaultPrevented = False, loading = False, toasts = [], sdk_calls = [],
       formData = \<lparr>currentPassword = js ''old-secret'', newPassword = js ''new-secret'',
                   confirmPassword = js ''new-secret''\<rparr>\<rparr>)
     = [\<lparr>variant = Some (js ''destructive''), title = js ''Update Failed'',
         description = js ''Failed to update password. Please try again.''\<rparr>]"
proof -
  let ?u = "\<lparr>user_email = Some (js ''ada@example.org''), user_displayName = None\<rparr>"
  let ?s = "\<lparr>defaultPrevented = False, loading = False, toasts = [], sdk_calls = [],
       formData = \<lparr>currentPassword = js ''old-secret'', newPassword = js ''new-secret'',
                   confirmPassword = js ''new-secret''\<rparr>\<rparr>"
  let ?ok = "\<lambda>_ :: sdk_call. Resolved"
  let ?weak = "\<lambda>c. case c of updatePassword _ _ \<Rightarrow> Rejected \<lparr>code = js ''auth/weak-password''\<rparr>
                   | _ \<Rightarrow> Resolved"
  have e: "user_email ?u = Some (js ''ada@example.org'')" by simp
  have n: "js ''ada@example.org'' \<noteq> []" by simp
  have q: "newPassword (formData ?s) = confirmPassword (formData ?s)" by simp
  have l: "6 \<le> length (newPassword (formData ?s))" by (simp add: js_def)
  from PasswordForm_fields_cleared_exactly_on_success [where sdk = ?ok, OF refl e n q l]
    PasswordForm_fields_cleared_exactly_on_success [where sdk = ?weak, OF refl e n q l]
  show ?thesis by simp
qed

section \<open>Properties of the profile form\<close>

lemma ProfileForm_no_user:
  "ProfileForm_handleSubmit sdk None s = s\<lparr>defaultPrevented := True\<rparr>"
  by (simp add: ProfileForm_handleSubmit_def)

lemma ProfileForm_sdk_calls:
  "sdk_calls (ProfileForm_handleSubmit sdk (Some u) s) =
     sdk_calls s @ [updateProfile u (trim (firstName (formData s) @ [0x0020] @ lastName (formData s)))]"
  by (simp add: ProfileForm_handleSubmit_def ProfileForm_try_def Let_def
           split: sdk_result.splits prod.splits)

lemma isWhiteSpace_space: "isWhiteSpace 0x0020"
  by (simp add: isWhiteSpace_def)

lemma js_split_no_sep: "sep \<notin> set w \<Longrightarrow> js_split sep w = [w]"
  by (induction w) auto

lemma js_split_append:
  "sep \<notin> set w \<Longrightarrow> js_split sep (w @ sep # rest) = w # js_split sep rest"
  by (induction w) auto

lemma js_split_two_words:
  assumes "sep \<notin> set w1" and "sep \<notin> set w2"
  shows "js_split sep (w1 @ [sep] @ w2) = [w1, w2]"
  using assms by (simp add: js_split_append js_split_no_sep)

lemma dropWhile_not_starting:
  "\<not> starts_with_whitespace s \<Longrightarrow> dropWhile isWhiteSpace s = s"
  by (cases s) (simp_all add: starts_with_whitespace_def)

lemma trim_id:
  assumes "\<not> starts_with_whitespace s" and "\<not> ends_with_whitespace s"
  shows "trim s = s"
  using assms by (simp add: trim_def ends_with_whitespace_def dropWhile_not_starting)

lemma dropWhile_not_start: "\<not> starts_with_whitespace (dropWhile isWhiteSpace s)"
  by (induction s) (simp_all add: starts_with_whitespace_def)

lemma trim_not_ends: "\<not> ends_with_whitespace (trim s)"
  by (simp add: trim_def ends_with_whitespace_def dropWhile_not_start)

lemma rev_dropWhile_rev_prefix:
  "\<exists>zs. t = rev (dropWhile P (rev t)) @ zs"
proof -
  have "rev (dropWhile P (rev t)) @ rev (takeWhile P (rev t))
          = rev (takeWhile P (rev t) @ dropWhile P (rev t))"
    by (simp only: rev_append)
  also have "\<dots> = t" by simp
  finally have "t = rev (dropWhile P (rev t)) @ rev (takeWhile P (rev t))" by (rule sym)
  then show ?thesis ..
qed

lemma trim_not_starts: "\<not> starts_with_whitespace (trim s)"
proof -
  let ?t = "dropWhile isWhiteSpace s"
  obtain zs where t: "?t = trim s @ zs"
    using rev_dropWhile_rev_prefix [of ?t isWhiteSpace] by (auto simp add: trim_def)
  show ?thesis
  proof (cases "trim s")
    case Nil
    then show ?thesis by (simp add: starts_with_whitespace_def)
  next
    case (Cons c cs)
    with t have "?t = c # cs @ zs" by simp
    with dropWhile_not_start [of s] have "\<not> isWhiteSpace c"
      by (simp add: starts_with_whitespace_def)
    with Cons show ?thesis by (simp add: starts_with_whitespace_def)
  qed
qed

lemma is_word_no_space: "is_word w \<Longrightarrow> 0x0020 \<notin> set w"
  using isWhiteSpace_space by (auto simp add: is_word_def list_all_iff)

lemma is_word_not_starts: "is_word w \<Longrightarrow> \<not> starts_with_whitespace (w @ r)"
  by (cases w) (simp_all add: is_word_def starts_with_whitespace_def)

lemma is_word_not_ends: "is_word w \<Longrightarrow> \<not> ends_with_whitespace (r @ w)"
  by (cases w rule: rev_cases) (simp_all add: is_word_def ends_with_whitespace_def starts_with_whitespace_def)

lemma ProfileForm_initial_two_words:
  assumes "user_displayName u = Some (w1 @ [0x0020] @ w2)" and "is_word w1" and "is_word w2"
  shows "formData (ProfileForm_initial (Some u)) = \<lparr>firstName = w1, lastName = w2\<rparr>"
proof -
  have "js_split 0x0020 (w1 @ [0x0020] @ w2) = [w1, w2]"
    using assms by (intro js_split_two_words is_word_no_space)
  with assms show ?thesis
    by (simp add: ProfileForm_initial_def displayName_part_def index_def or_empty_def)
qed

text \<open>
  Claim C10. If the user's \<open>displayName\<close> is two words separated by one space, the
  form initialised from it and submitted unchanged calls \<open>updateProfile\<close> with that same
  \<open>displayName\<close>. In general the submitted name is
  \<open>trim (firstName @ " " @ lastName)\<close>, which neither starts nor ends with white space.
\<close>

theorem ProfileForm_two_word_name_round_trip:
  "(user = Some u \<and> user_displayName u = Some (w1 @ [0x0020] @ w2) \<and> is_word w1 \<and> is_word w2
      \<longrightarrow> sdk_calls (ProfileForm_handleSubmit sdk user (ProfileForm_initial user))
            = [updateProfile u (w1 @ [0x0020] @ w2)])
   \<and> (user = Some u
      \<longrightarrow> sdk_calls (ProfileForm_handleSubmit sdk user s)
            = sdk_calls s @
              [updateProfile u (trim (firstName (formData s) @ [0x0020] @ lastName (formData s)))])
   \<and> \<not> starts_with_whitespace (trim (firstName (formData s) @ [0x0020] @ lastName (formData s)))
   \<and> \<not> ends_with_whitespace (trim (firstName (formData s) @ [0x0020] @ lastName (formData s)))"
proof (intro conjI impI)
  assume a: "user = Some u \<and> user_displayName u = Some (w1 @ [0x0020] @ w2) \<and> is_word w1 \<and> is_word w2"
  then have u: "user = Some u" and d: "user_displayName u = Some (w1 @ [0x0020] @ w2)"
    and w1: "is_word w1" and w2: "is_word w2" by blast+
  have f: "formData (ProfileForm_initial (Some u)) = \<lparr>firstName = w1, lastName = w2\<rparr>"
    using d w1 w2 by (rule ProfileForm_initial_two_words)
  have "\<not> starts_with_whitespace (w1 @ [0x0020] @ w2)" using w1 by (rule is_word_not_starts)
  moreover have "\<not> ends_with_whitespace ((w1 @ [0x0020]) @ w2)" using w2 by (rule is_word_not_ends)
  ultimately have t: "trim (w1 @ [0x0020] @ w2) = w1 @ [0x0020] @ w2"
    by (intro trim_id) simp_all
  have "sdk_calls (ProfileForm_initial (Some u)) = []" by (simp add: ProfileForm_initial_def)
  with f t u show "sdk_calls (ProfileForm_handleSubmit sdk user (ProfileForm_initial user))
            = [updateProfile u (w1 @ [0x0020] @ w2)]"
    by (simp add: ProfileForm_sdk_calls)
next
  assume "user = Some u"
  then show "sdk_calls (ProfileForm_handleSubmit sdk user s)
            = sdk_calls s @
              [updateProfile u (trim (firstName (formData s) @ [0x0020] @ lastName (formData s)))]"
    by (simp add: ProfileForm_sdk_calls)
qed (rule trim_not_starts trim_not_ends)+

theorem ProfileForm_two_word_name_round_trip_witness:
  "is_word (js ''Ada'') \<and> is_word (js ''Lovelace'')
   \<and> sdk_calls (ProfileForm_handleSubmit (\<lambda>_. Resolved)
        (Some \<lparr>user_email = None, user_displayName = Some (js ''Ada'' @ [0x0020] @ js ''Lovelace'')\<rparr>)
        (ProfileForm_initial
          (Some \<lparr>user_email = None, user_displayName = Some (js ''Ada'' @ [0x0020] @ js ''Lovelace'')\<rparr>)))
     = [updateProfile
          \<lparr>user_email = None, user_displayName = Some (js ''Ada'' @ [0x0020] @ js ''Lovelace'')\<rparr>
          (js ''Ada Lovelace'')]"
proof -
  let ?u = "\<lparr>user_email = None, user_displayName = Some (js ''Ada'' @ [0x0020] @ js ''Lovelace'')\<rparr>"
  have a: "is_word (js ''Ada'')" by (simp add: is_word_def isWhiteSpace_def js_def)
  have b: "is_word (js ''Lovelace'')" by (simp add: is_word_def isWhiteSpace_def js_def)
  have c: "js ''Ada'' @ [0x0020] @ js ''Lovelace'' = js ''Ada Lovelace''" by (simp add: js_def)
  have "Some ?u = Some ?u \<and> user_displayName ?u = Some (js ''Ada'' @ [0x0020] @ js ''Lovelace'')
          \<and> is_word (js ''Ada'') \<and> is_word (js ''Lovelace'')
        \<longrightarrow> sdk_calls (ProfileForm_handleSubmit (\<lambda>_. Resolved) (Some ?u) (ProfileForm_initial (Some ?u)))
            = [updateProfile ?u (js ''Ada'' @ [0x0020] @ js ''Lovelace'')]"
    by (rule ProfileForm_two_word_name_round_trip [THEN conjunct1])
  with a b have "sdk_calls (ProfileForm_handleSubmit (\<lambda>_. Resolved) (Some ?u) (ProfileForm_initial (Some ?u)))
            = [updateProfile ?u (js ''Ada'' @ [0x0020] @ js ''Lovelace'')]"
    by simp
  with a b c show ?thesis by simp
qed

section \<open>SDK operations per submission of a settings form\<close>

text \<open>
  Claim C6, as the code has it. A profile-form submission with a signed-in user invokes
  exactly one SDK operation, \<open>updateProfile\<close>. A password-form submission that passes
  the guards invokes \<open>reauthenticateWithCredential\<close> and, exactly when that resolves,
  \<open>updatePassword\<close> after it: one operation or two.
\<close>

theorem settings_forms_sdk_operations:
  "(\<forall>u. user = Some u \<longrightarrow>
      sdk_calls (ProfileForm_handleSubmit sdk user p) = sdk_calls p @
        [updateProfile u (trim (firstName (formData p) @ [0x0020] @ lastName (formData p)))])
   \<and> (\<forall>u e. user = Some u \<and> user_email u = Some e \<and> e \<noteq> []
          \<and> newPassword (formData s) = confirmPassword (formData s)
          \<and> 6 \<le> length (newPassword (formData s)) \<longrightarrow>
      sdk_calls (PasswordForm_handleSubmit sdk user s) = sdk_calls s @
        reauthenticateWithCredential u
          (EmailAuthProvider_credential e (currentPassword (formData s)))
        # (if sdk (reauthenticateWithCredential u
                     (EmailAuthProvider_credential e (currentPassword (formData s)))) = Resolved
           then [updatePassword u (newPassword (formData s))] else []))"
proof (intro conjI allI impI)
  fix u assume "user = Some u"
  then show "sdk_calls (ProfileForm_handleSubmit sdk user p) = sdk_calls p @
        [updateProfile u (trim (firstName (formData p) @ [0x0020] @ lastName (formData p)))]"
    by (simp add: ProfileForm_sdk_calls)
next
  fix u e
  let ?re = "reauthenticateWithCredential u
               (EmailAuthProvider_credential e (currentPassword (formData s)))"
  let ?up = "updatePassword u (newPassword (formData s))"
  assume "user = Some u \<and> user_email u = Some e \<and> e \<noteq> []
          \<and> newPassword (formData s) = confirmPassword (formData s)
          \<and> 6 \<le> length (newPassword (formData s))"
  then have g: "user = Some u" "user_email u = Some e" "e \<noteq> []"
      "newPassword (formData s) = confirmPassword (formData s)"
      "6 \<le> length (newPassword (formData s))"
    by blast+
  show "sdk_calls (PasswordForm_handleSubmit sdk user s) = sdk_calls s @
          ?re # (if sdk ?re = Resolved then [?up] else [])"
  proof (cases "sdk ?re")
    case (Rejected error)
    from PasswordForm_reauthenticate_rejected [where sdk = sdk, OF g Rejected] Rejected show ?thesis by simp
  next
    case Resolved
    show ?thesis
    proof (cases "sdk ?up")
      case (Rejected error)
      from PasswordForm_update_rejected [where sdk = sdk, OF g Resolved Rejected] Resolved show ?thesis by simp
    next
      case r2: Resolved
      from PasswordForm_success [where sdk = sdk, OF g Resolved r2] Resolved show ?thesis by simp
    qed
  qed
qed

theorem settings_forms_sdk_operations_witness:
  "sdk_calls (ProfileForm_handleSubmit (\<lambda>_. Resolved)
      (Some \<lparr>user_email = Some (js ''ada@example.org''), user_displayName = None\<rparr>)
      \<lparr>defaultPrevented = False, loading = False, toasts = [], sdk_calls = [],
       formData = \<lparr>firstName = js ''Ada'', lastName = js ''Lovelace''\<rparr>\<rparr>)
     = [updateProfile \<lparr>user_email = Some (js ''ada@example.org''), user_displayName = None\<rparr>
          (js ''Ada Lovelace'')]
   \<and> sdk_calls (PasswordForm_handleSubmit (\<lambda>_. Rejected \<lparr>code = js ''auth/wrong-password''\<rparr>)
      (Some \<lparr>user_email = Some (js ''ada@example.org''), user_displayName = None\<rparr>)
      \<lparr>defaultPrevented = False, loading = False, toasts = [], sdk_calls = [],
       formData = \<lparr>currentPassword = js ''old-secret'', newPassword = js ''new-secret'',
                   confirmPassword = js ''new-secret''\<rparr>\<rparr>)
     = [reauthenticateWithCredential
          \<lparr>user_email = Some (js ''ada@example.org''), user_displayName = None\<rparr>
          (EmailAuthProvider_credential (js ''ada@example.org'') (js ''old-secret''))]"
proof -
  let ?u = "\<lparr>user_email = Some (js ''ada@example.org''), user_displayName = None\<rparr>"
  let ?p = "\<lparr>defaultPrevented = False, loading = False, toasts = [], sdk_calls = [],
       formData = \<lparr>firstName = js ''Ada'', lastName = js ''Lovelace''\<rparr>\<rparr>"
  let ?s = "\<lparr>defaultPrevented = False, loading = False, toasts = [], sdk_calls = [],
       formData = \<lparr>currentPassword = js ''old-secret'', newPassword = js ''new-secret'',
                   confirmPassword = js ''new-secret''\<rparr>\<rparr>"
  have t: "trim (js ''Ada'' @ [0x0020] @ js ''Lovelace'') = js ''Ada Lovelace''"
    by (simp add: trim_def isWhiteSpace_def js_def)
  have l: "6 \<le> length (js ''new-secret'')" by (simp add: js_def)
  from settings_forms_sdk_operations
         [where user = "Some ?u" and sdk = "\<lambda>_. Resolved" and p = ?p and s = ?s]
       settings_forms_sdk_operations
         [where user = "Some ?u" and sdk = "\<lambda>_. Rejected \<lparr>code = js ''auth/wrong-password''\<rparr>"
            and p = ?p and s = ?s]
       t l
  show ?thesis by simp
qed

text \<open>
  The claim promises exactly one SDK operation per submission that reaches the SDK. A
  password-form submission whose re-authentication resolves invokes two.
\<close>

theorem PasswordForm_two_sdk_operations_counterexample:
  "sdk_calls (PasswordForm_handleSubmit (\<lambda>_. Resolved)
      (Some \<lparr>user_email = Some (js ''ada@example.org''), user_displayName = None\<rparr>)
      \<lparr>defaultPrevented = False, loading = False, toasts = [], sdk_calls = [],
       formData = \<lparr>currentPassword = js ''old-secret'', newPassword = js ''new-secret'',
                   confirmPassword = js ''new-secret''\<rparr>\<rparr>)
     = [reauthenticateWithCredential
          \<lparr>user_email = Some (js ''ada@example.org''), user_displayName = None\<rparr>
          (EmailAuthProvider_credential (js ''ada@example.org'') (js ''old-secret'')),
        updatePassword
          \<lparr>user_email = Some (js ''ada@example.org''), user_displayName = None\<rparr>
          (js ''new-secret'')]
   \<and> length (sdk_calls (PasswordForm_handleSubmit (\<lambda>_. Resolved)
      (Some \<lparr>user_email = Some (js ''ada@example.org''), user_displayName = None\<rparr>)
      \<lparr>defaultPrevented = False, loading = False, toasts = [], sdk_calls = [],
       formData = \<lparr>currentPassword = js ''old-secret'', newPassword = js ''new-secret'',
                   confirmPassword = js ''new-secret''\<rparr>\<rparr>)) = 2"
  by (simp add: PasswordForm_handleSubmit_def PasswordForm_try_def Let_def js_def)

end
